theory Spec2Isabelle
  imports Complex_Main "HOL-Library.Word"
begin

text \<open>
  A model of the core of the article studio: the key store of \<open>SettingsDialog.tsx\<close>
  (\<open>getStoredProvider\<close>, \<open>getApiKey\<close>, \<open>onSave\<close>) and, from \<open>Index.tsx\<close>, the two
  provider clients (\<open>callOpenAI\<close>, \<open>callGemini\<close>), the content fetcher
  (\<open>tryFetchUrlContent\<close>) and the two handlers (\<open>onGenerate\<close>, \<open>onSummarize\<close>).
  The browser's stores are passed as state; an asynchronous function is a function to
  what its promise comes to (a value, a rejection, or no settling at all) and the list of
  effects it has had on the way; the network, the URL parser and the texts chosen by the
  engine are parameters. The page reads the key store once, when it is mounted, and the
  model keeps that step apart from the handlers.
\<close>

section \<open>JavaScript strings\<close>

text \<open>
  A JavaScript string is a sequence of UTF-16 code units; \<open>length\<close>, \<open>slice\<close>, \<open>trim\<close> and
  regular expressions without the \<open>u\<close> flag all work on code units. String literals of
  the source are ASCII and are written through \<open>js\<close>.
\<close>

type_synonym jsstring = "16 word list"

definition js :: "string \<Rightarrow> jsstring" where
  "js s = map of_char s"

text \<open>
  The characters matched by \<open>\s\<close> and removed by \<open>trim()\<close>: ECMAScript WhiteSpace
  (TAB, VT, FF, SP, NBSP, ZWNBSP and the space separators) and LineTerminator
  (LF, CR, LS, PS).
\<close>

definition is_space :: "16 word \<Rightarrow> bool" where
  "is_space c \<longleftrightarrow>
     c = 0x0009 \<or> c = 0x000A \<or> c = 0x000B \<or> c = 0x000C \<or> c = 0x000D \<or> c = 0x0020 \<or>
     c = 0x00A0 \<or> c = 0x1680 \<or> (0x2000 \<le> c \<and> c \<le> 0x200A) \<or> c = 0x2028 \<or> c = 0x2029 \<or>
     c = 0x202F \<or> c = 0x205F \<or> c = 0x3000 \<or> c = 0xFEFF"

text \<open>\<open>s.trim()\<close>\<close>

definition trim :: "jsstring \<Rightarrow> jsstring" where
  "trim s = rev (dropWhile is_space (rev (dropWhile is_space s)))"

text \<open>\<open>s.replace(/\s+/g, " ")\<close>: every maximal run of white space becomes one space.\<close>

function collapse_spaces :: "jsstring \<Rightarrow> jsstring" where
  "collapse_spaces [] = []"
| "collapse_spaces (c # cs) =
     (if is_space c then 0x0020 # collapse_spaces (dropWhile is_space cs)
      else c # collapse_spaces cs)"
  by pat_completeness auto
termination
  by (relation "measure length") (auto simp: le_imp_less_Suc length_dropWhile_le)

text \<open>\<open>x || d\<close> for a value \<open>x\<close> that is a string or \<open>null\<close>: \<open>null\<close> and \<open>""\<close> are falsy.\<close>

definition or_default :: "jsstring option \<Rightarrow> jsstring \<Rightarrow> jsstring" where
  "or_default x d = (case x of None \<Rightarrow> d | Some v \<Rightarrow> if v = [] then d else v)"

text \<open>The decimal text of a non-negative integer, as a template literal prints it.\<close>

fun show_nat :: "nat \<Rightarrow> jsstring" where
  "show_nat n = (if n < 10 then [0x0030 + of_nat n]
                 else show_nat (n div 10) @ [0x0030 + of_nat (n mod 10)])"

declare show_nat.simps [simp del]

section \<open>Browser storage\<close>

text \<open>
  \<open>localStorage\<close> and \<open>sessionStorage\<close> are two distinct global stores from strings to
  strings. \<open>getItem\<close> answers \<open>null\<close> (here \<open>None\<close>) for a missing key.
\<close>

type_synonym Storage = "jsstring \<rightharpoonup> jsstring"

record browser =
  localStorage :: Storage
  sessionStorage :: Storage

datatype storage_ref = LocalStorage | SessionStorage

definition storage_of :: "storage_ref \<Rightarrow> browser \<Rightarrow> Storage" where
  "storage_of r b = (case r of LocalStorage \<Rightarrow> localStorage b | SessionStorage \<Rightarrow> sessionStorage b)"

definition getItem :: "storage_ref \<Rightarrow> jsstring \<Rightarrow> browser \<Rightarrow> jsstring option" where
  "getItem r k b = storage_of r b k"

definition setItem :: "storage_ref \<Rightarrow> jsstring \<Rightarrow> jsstring \<Rightarrow> browser \<Rightarrow> browser" where
  "setItem r k v b =
     (case r of
        LocalStorage \<Rightarrow> b\<lparr>localStorage := (localStorage b)(k \<mapsto> v)\<rparr>
      | SessionStorage \<Rightarrow> b\<lparr>sessionStorage := (sessionStorage b)(k \<mapsto> v)\<rparr>)"

definition removeItem :: "storage_ref \<Rightarrow> jsstring \<Rightarrow> browser \<Rightarrow> browser" where
  "removeItem r k b =
     (case r of
        LocalStorage \<Rightarrow> b\<lparr>localStorage := (localStorage b)(k := None)\<rparr>
      | SessionStorage \<Rightarrow> b\<lparr>sessionStorage := (sessionStorage b)(k := None)\<rparr>)"

section \<open>Effects\<close>

text \<open>
  Values of parsed JSON, and of the object literals handed to \<open>JSON.stringify\<close>.
  A number is given by its value; only whether it is zero matters below.
\<close>

datatype jsval =
    JUndefined
  | JNull
  | JBool bool
  | JNum rat
  | JStr jsstring
  | JArr "jsval list"
  | JObj "(jsstring \<times> jsval) list"

text \<open>
  Exceptions. \<open>Error m\<close> is \<open>new Error(m)\<close> of the source; the others are raised by the
  platform: a \<open>TypeError\<close> (a property read on \<open>null\<close>, a call of a non-function, a
  failed \<open>fetch\<close>, an unparsable URL), a \<open>SyntaxError\<close> (a body that is not JSON) and
  the \<open>AbortError\<close> of an aborted \<open>fetch\<close>.
\<close>

datatype platform_error = TypeError | SyntaxError | AbortError

datatype js_error = Error jsstring | Raised platform_error

record request =
  url :: jsstring
  http_method :: jsstring
  headers :: "(jsstring \<times> jsstring) list"
  body :: "jsval option"
  options :: "(jsstring \<times> jsstring) list"

text \<open>
  What a handler or a call does besides returning, in order: notifications, state
  setters of the components, timers, and requests put on the network.
\<close>

datatype event =
    Toast_error jsstring
  | Toast_warning jsstring
  | Toast_success jsstring
  | Console_error js_error
  | Set_open bool
  | Set_generating bool
  | Set_article jsstring
  | Set_summarizing bool
  | Set_summary jsstring
  | Set_timeout nat
  | Clear_timeout
  | Timer_fired
  | Fetch request
  | Uncaught js_error

section \<open>Key Store (SettingsDialog.tsx)\<close>

datatype Provider = OpenAI | Gemini

definition provider_id :: "Provider \<Rightarrow> jsstring" where
  "provider_id p = (case p of OpenAI \<Rightarrow> js ''openai'' | Gemini \<Rightarrow> js ''gemini'')"

definition LOCAL_KEYS_provider :: jsstring where
  "LOCAL_KEYS_provider = js ''ai_provider''"

definition LOCAL_KEYS_openai :: jsstring where
  "LOCAL_KEYS_openai = js ''openai_api_key''"

definition LOCAL_KEYS_gemini :: jsstring where
  "LOCAL_KEYS_gemini = js ''gemini_api_key''"

definition LOCAL_KEYS_storeMode :: jsstring where
  "LOCAL_KEYS_storeMode = js ''ai_store_mode''"

definition getStoredProvider :: "browser \<Rightarrow> Provider" where
  "getStoredProvider b =
     (let p = or_default (getItem LocalStorage LOCAL_KEYS_provider b) (js ''openai'')
      in if p = js ''gemini'' then Gemini else OpenAI)"

definition getApiKey :: "Provider \<Rightarrow> browser \<Rightarrow> jsstring option" where
  "getApiKey p b =
     (let mode = or_default (getItem LocalStorage LOCAL_KEYS_storeMode b) (js ''local'');
          storage = (if mode = js ''session'' then SessionStorage else LocalStorage)
      in getItem storage (if p = OpenAI then LOCAL_KEYS_openai else LOCAL_KEYS_gemini) b)"

text \<open>
  \<open>onSave\<close> of the dialog, on the dialog's state: the selected provider \<open>p\<close>, the storage
  mode \<open>storeMode\<close> (\<open>"local"\<close> or \<open>"session"\<close>; any other string is treated like
  \<open>"local"\<close>) and the two key fields.
\<close>

definition onSave ::
  "Provider \<Rightarrow> jsstring \<Rightarrow> jsstring \<Rightarrow> jsstring \<Rightarrow> browser \<Rightarrow> browser \<times> event list" where
  "onSave p storeMode openaiKey geminiKey b =
     (let b1 = setItem LocalStorage LOCAL_KEYS_provider (provider_id p) b;
          b2 = setItem LocalStorage LOCAL_KEYS_storeMode storeMode b1;
          target = (if storeMode = js ''session'' then SessionStorage else LocalStorage);
          other = (if storeMode = js ''session'' then LocalStorage else SessionStorage);
          b3 = (if openaiKey \<noteq> [] then setItem target LOCAL_KEYS_openai openaiKey b2
                else removeItem target LOCAL_KEYS_openai b2);
          b4 = (if geminiKey \<noteq> [] then setItem target LOCAL_KEYS_gemini geminiKey b3
                else removeItem target LOCAL_KEYS_gemini b3);
          b5 = removeItem other LOCAL_KEYS_openai b4;
          b6 = removeItem other LOCAL_KEYS_gemini b5
      in (b6,
          [Toast_success (if storeMode = js ''session'' then js ''Saved to this session only.''
                          else js ''Settings saved on this device.''),
           Set_open False]))"

text \<open>
  The store the keys are written to for a storage mode, and the other one: \<open>target\<close> and
  \<open>other\<close> of \<open>onSave\<close>.
\<close>

definition target_store :: "jsstring \<Rightarrow> storage_ref" where
  "target_store storeMode = (if storeMode = js ''session'' then SessionStorage else LocalStorage)"

definition other_store :: "jsstring \<Rightarrow> storage_ref" where
  "other_store storeMode = (if storeMode = js ''session'' then LocalStorage else SessionStorage)"

definition key_name :: "Provider \<Rightarrow> jsstring" where
  "key_name p = (if p = OpenAI then LOCAL_KEYS_openai else LOCAL_KEYS_gemini)"

text \<open>The storage mode that \<open>getApiKey\<close> finds persisted.\<close>

definition persisted_mode :: "browser \<Rightarrow> jsstring" where
  "persisted_mode b = or_default (getItem LocalStorage LOCAL_KEYS_storeMode b) (js ''local'')"

section \<open>Platform\<close>

text \<open>
  What the browser supplies and the source only calls: the network behind \<open>fetch\<close>, the
  URL parser behind \<open>new URL\<close> (it answers \<open>None\<close> where the constructor throws), the
  message text of the platform's own exceptions, and the text a template literal prints
  for a member inherited from \<open>Object.prototype\<close>.
\<close>

record js_url =
  protocol :: jsstring
  href :: jsstring

text \<open>
  What reading the body of a response comes to: a value; a rejection (a \<open>SyntaxError\<close>
  for a body that is not JSON, a \<open>TypeError\<close> for a stream that breaks); or a read that
  does not come to an end by itself, and ends only when the request is aborted.
\<close>

datatype 'a body_read = Body 'a | Body_rejects platform_error | Body_stalls

text \<open>A response: its status, and what \<open>res.json()\<close> and \<open>res.text()\<close> come to.\<close>

record response =
  status :: nat
  json_body :: "jsval body_read"
  text_body :: "jsstring body_read"

definition ok :: "response \<Rightarrow> bool" where
  "ok res \<longleftrightarrow> 200 \<le> status res \<and> status res \<le> 299"

text \<open>
  How the network treats a request: it settles after so many milliseconds, with a
  response or with a failure, or it never settles.
\<close>

datatype fetch_result = Response response | Network_error

datatype fetch_behaviour = Settles_after nat fetch_result | Never_settles

record platform =
  fetch :: "request \<Rightarrow> fetch_behaviour"
  new_URL :: "jsstring \<Rightarrow> js_url option"
  error_message :: "platform_error \<Rightarrow> jsstring"
  inherited_text :: "jsstring \<Rightarrow> jsstring"

text \<open>
  \<open>await fetch(..., {signal: controller.signal})\<close> while a timer of \<open>delay\<close> milliseconds
  that calls \<open>controller.abort()\<close> is armed: a request that has not settled when the
  timer fires is aborted and the \<open>fetch\<close> rejects with an \<open>AbortError\<close>.
\<close>

definition await_fetch ::
  "platform \<Rightarrow> nat \<Rightarrow> request \<Rightarrow> (js_error + response) \<times> event list" where
  "await_fetch env delay req =
     (case fetch env req of
        Never_settles \<Rightarrow> (Inl (Raised AbortError), [Fetch req, Timer_fired])
      | Settles_after t r \<Rightarrow>
          if delay \<le> t then (Inl (Raised AbortError), [Fetch req, Timer_fired])
          else (case r of
                  Network_error \<Rightarrow> (Inl (Raised TypeError), [Fetch req])
                | Response res \<Rightarrow> (Inr res, [Fetch req])))"

section \<open>Reading parsed JSON\<close>

definition nullish :: "jsval \<Rightarrow> bool" where
  "nullish v \<longleftrightarrow> v = JUndefined \<or> v = JNull"

definition falsy :: "jsval \<Rightarrow> bool" where
  "falsy v \<longleftrightarrow> v = JUndefined \<or> v = JNull \<or> v = JBool False \<or> v = JNum 0 \<or> v = JStr []"

text \<open>
  \<open>v.k\<close> on a value that is not \<open>null\<close> or \<open>undefined\<close>, for a name \<open>k\<close> that no
  built-in prototype defines (as \<open>choices\<close>, \<open>message\<close>, \<open>content\<close>, \<open>candidates\<close>,
  \<open>parts\<close> and \<open>text\<close>): an own property of an object, \<open>undefined\<close> otherwise.
\<close>

fun member :: "jsstring \<Rightarrow> jsval \<Rightarrow> jsval" where
  "member k (JObj kvs) = (case map_of kvs k of None \<Rightarrow> JUndefined | Some v \<Rightarrow> v)"
| "member k v = JUndefined"

text \<open>\<open>v[0]\<close> on a value that is not \<open>null\<close> or \<open>undefined\<close>.\<close>

fun index0 :: "jsval \<Rightarrow> jsval" where
  "index0 (JArr xs) = (case xs of [] \<Rightarrow> JUndefined | x # _ \<Rightarrow> x)"
| "index0 (JStr s) = (case s of [] \<Rightarrow> JUndefined | c # _ \<Rightarrow> JStr [c])"
| "index0 (JObj kvs) = member (js ''0'') (JObj kvs)"
| "index0 v = JUndefined"

text \<open>The optional chains \<open>v?.k\<close> and \<open>v?.[0]\<close>.\<close>

definition opt_member :: "jsstring \<Rightarrow> jsval \<Rightarrow> jsval" where
  "opt_member k v = (if nullish v then JUndefined else member k v)"

definition opt_index0 :: "jsval \<Rightarrow> jsval" where
  "opt_index0 v = (if nullish v then JUndefined else index0 v)"

section \<open>Provider clients (Index.tsx)\<close>

definition openai_request :: "jsstring \<Rightarrow> jsstring \<Rightarrow> request" where
  "openai_request apiKey prompt =
     \<lparr>url = js ''https://api.openai.com/v1/chat/completions'',
      http_method = js ''POST'',
      headers = [(js ''Content-Type'', js ''application/json''),
                 (js ''Authorization'', js ''Bearer '' @ apiKey)],
      body = Some (JObj
        [(js ''model'', JStr (js ''gpt-4o-mini'')),
         (js ''messages'', JArr
            [JObj [(js ''role'', JStr (js ''system'')),
                   (js ''content'', JStr (js ''You are a professional content writer.''))],
             JObj [(js ''role'', JStr (js ''user'')), (js ''content'', JStr prompt)]]),
         (js ''temperature'', JNum (7 / 10))]),
      options = [(js ''cache'', js ''no-store''), (js ''referrerPolicy'', js ''no-referrer'')]\<rparr>"

text \<open>\<open>data.choices?.[0]?.message?.content\<close>, for \<open>data\<close> that is not \<open>null\<close>.\<close>

definition openai_path :: "jsval \<Rightarrow> jsval" where
  "openai_path data =
     opt_member (js ''content'') (opt_member (js ''message'') (opt_index0 (member (js ''choices'') data)))"

text \<open>
  \<open>data.choices?.[0]?.message?.content?.trim?.() || ""\<close>. Reading \<open>choices\<close> of
  \<open>null\<close> throws. A string has the method \<open>trim\<close>; an object has a \<open>trim\<close> only as an
  own property, which is never a function in parsed JSON, so the call throws unless the
  property is \<open>null\<close>; no other value has a \<open>trim\<close>.
\<close>

definition openai_text :: "jsval \<Rightarrow> js_error + jsstring" where
  "openai_text data =
     (if nullish data then Inl (Raised TypeError)
      else (case openai_path data of
              JStr s \<Rightarrow> Inr (trim s)
            | JObj kvs \<Rightarrow>
                if nullish (member (js ''trim'') (JObj kvs)) then Inr [] else Inl (Raised TypeError)
            | _ \<Rightarrow> Inr []))"

text \<open>
  The body of the \<open>try\<close>. The timer is still armed while \<open>res.json()\<close> is awaited: a
  read that stalls is aborted when the timer fires and rejects with an \<open>AbortError\<close>;
  any other rejection of the read is passed on as it is.
\<close>

definition callOpenAI_try ::
  "platform \<Rightarrow> jsstring \<Rightarrow> jsstring \<Rightarrow> (js_error + jsstring) \<times> event list" where
  "callOpenAI_try env apiKey prompt =
     (case await_fetch env 30000 (openai_request apiKey prompt) of
        (Inl e, tr) \<Rightarrow> (Inl e, tr)
      | (Inr res, tr) \<Rightarrow>
          if \<not> ok res
          then (Inl (Error (js ''OpenAI error '' @ show_nat (status res))), tr)
          else (case json_body res of
                  Body data \<Rightarrow> (openai_text data, tr)
                | Body_rejects e \<Rightarrow> (Inl (Raised e), tr)
                | Body_stalls \<Rightarrow> (Inl (Raised AbortError), tr @ [Timer_fired])))"

text \<open>
  The timer is armed before the \<open>try\<close> and cleared in its \<open>finally\<close>. As the timer
  covers every \<open>await\<close> of the body, the call always settles.
\<close>

definition callOpenAI ::
  "platform \<Rightarrow> jsstring \<Rightarrow> jsstring \<Rightarrow> (js_error + jsstring) \<times> event list" where
  "callOpenAI env apiKey prompt =
     (case callOpenAI_try env apiKey prompt of
        (r, tr) \<Rightarrow> (r, [Set_timeout 30000] @ tr @ [Clear_timeout]))"

definition gemini_request :: "jsstring \<Rightarrow> jsstring \<Rightarrow> request" where
  "gemini_request apiKey prompt =
     \<lparr>url = js ''https://generativelanguage.googleapis.com/v1beta/models/gemini-1.5-flash:generateContent?key=''
              @ apiKey,
      http_method = js ''POST'',
      headers = [(js ''Content-Type'', js ''application/json'')],
      body = Some (JObj
        [(js ''contents'', JArr
            [JObj [(js ''role'', JStr (js ''user'')),
                   (js ''parts'', JArr [JObj [(js ''text'', JStr prompt)]])]])]),
      options = [(js ''cache'', js ''no-store''), (js ''referrerPolicy'', js ''no-referrer'')]\<rparr>"

text \<open>\<open>data.candidates?.[0]?.content?.parts?.[0]?.text\<close>, for \<open>data\<close> that is not \<open>null\<close>.\<close>

definition gemini_path :: "jsval \<Rightarrow> jsval" where
  "gemini_path data =
     opt_member (js ''text'') (opt_index0 (opt_member (js ''parts'')
       (opt_member (js ''content'') (opt_index0 (member (js ''candidates'') data)))))"

text \<open>
  \<open>const text = ... || ""; return text.trim()\<close>: a falsy value is replaced by the empty
  string; a truthy value that is not a string has no method \<open>trim\<close>, and the call throws.
\<close>

definition gemini_text :: "jsval \<Rightarrow> js_error + jsstring" where
  "gemini_text data =
     (if nullish data then Inl (Raised TypeError)
      else (let text = (if falsy (gemini_path data) then JStr [] else gemini_path data)
            in case text of JStr s \<Rightarrow> Inr (trim s) | _ \<Rightarrow> Inl (Raised TypeError)))"

definition callGemini_try ::
  "platform \<Rightarrow> jsstring \<Rightarrow> jsstring \<Rightarrow> (js_error + jsstring) \<times> event list" where
  "callGemini_try env apiKey prompt =
     (case await_fetch env 30000 (gemini_request apiKey prompt) of
        (Inl e, tr) \<Rightarrow> (Inl e, tr)
      | (Inr res, tr) \<Rightarrow>
          if \<not> ok res
          then (Inl (Error (js ''Gemini error '' @ show_nat (status res))), tr)
          else (case json_body res of
                  Body data \<Rightarrow> (gemini_text data, tr)
                | Body_rejects e \<Rightarrow> (Inl (Raised e), tr)
                | Body_stalls \<Rightarrow> (Inl (Raised AbortError), tr @ [Timer_fired])))"

definition callGemini ::
  "platform \<Rightarrow> jsstring \<Rightarrow> jsstring \<Rightarrow> (js_error + jsstring) \<times> event list" where
  "callGemini env apiKey prompt =
     (case callGemini_try env apiKey prompt of
        (r, tr) \<Rightarrow> (r, [Set_timeout 30000] @ tr @ [Clear_timeout]))"

section \<open>Content Fetcher (Index.tsx)\<close>

text \<open>
  \<open>s.replace(re, r)\<close> for a global regular expression that matches no empty string:
  \<open>m\<close> gives the length of the match that starts at the head of its argument, if there
  is one. Matches are taken leftmost, and the search goes on behind each match.
\<close>

fun replace_all :: "(jsstring \<Rightarrow> nat option) \<Rightarrow> jsstring \<Rightarrow> nat \<Rightarrow> jsstring \<Rightarrow> jsstring" where
  "replace_all m r skip [] = []"
| "replace_all m r (Suc n) (c # cs) = replace_all m r n cs"
| "replace_all m r 0 (c # cs) =
     (case m (c # cs) of
        Some (Suc n) \<Rightarrow> r @ replace_all m r n cs
      | _ \<Rightarrow> c # replace_all m r 0 cs)"

text \<open>
  Matching an ASCII pattern under the flag \<open>i\<close>: only the ASCII letters have another
  case that matches. The pattern is given in lower case.
\<close>

definition lower :: "16 word \<Rightarrow> 16 word" where
  "lower c = (if 0x0041 \<le> c \<and> c \<le> 0x005A then c + 0x0020 else c)"

definition starts_with_ci :: "jsstring \<Rightarrow> jsstring \<Rightarrow> bool" where
  "starts_with_ci p s \<longleftrightarrow> length p \<le> length s \<and> map lower (take (length p) s) = p"

text \<open>The position of the first match of the pattern.\<close>

fun index_ci :: "jsstring \<Rightarrow> jsstring \<Rightarrow> nat option" where
  "index_ci p [] = (if p = [] then Some 0 else None)"
| "index_ci p (c # cs) =
     (if starts_with_ci p (c # cs) then Some 0 else map_option Suc (index_ci p cs))"

text \<open>
  \<open>/<name[^>]*>[\s\S]*?<\/name>/gi\<close> at the head of \<open>s\<close>: the opening \<open><name\<close>, the
  first \<open>>\<close> behind it, and from there the first closing \<open></name>\<close>.
\<close>

definition block_match :: "string \<Rightarrow> jsstring \<Rightarrow> nat option" where
  "block_match name s =
     (let opening = js (''<'' @ name); closing = js (''</'' @ name @ ''>'')
      in if starts_with_ci opening s then
           (let rest = drop (length opening) s;
                n = length (takeWhile (\<lambda>c. c \<noteq> 0x003E) rest)
            in if n < length rest then
                 (case index_ci closing (drop (Suc n) rest) of
                    None \<Rightarrow> None
                  | Some k \<Rightarrow> Some (length opening + Suc n + k + length closing))
               else None)
         else None)"

text \<open>\<open>/<[^>]+>/g\<close> at the head of \<open>s\<close>.\<close>

definition tag_match :: "jsstring \<Rightarrow> nat option" where
  "tag_match s =
     (case s of
        [] \<Rightarrow> None
      | c # cs \<Rightarrow>
          if c = 0x003C then
            (let n = length (takeWhile (\<lambda>c. c \<noteq> 0x003E) cs)
             in if 0 < n \<and> n < length cs then Some (n + 2) else None)
          else None)"

definition extract_text :: "jsstring \<Rightarrow> jsstring" where
  "extract_text html =
     (let text = replace_all tag_match (js '' '') 0
                   (replace_all (block_match ''style'') [] 0
                      (replace_all (block_match ''script'') [] 0 html))
      in trim (collapse_spaces text))"

definition fetch_request :: "js_url \<Rightarrow> request" where
  "fetch_request u =
     \<lparr>url = href u,
      http_method = js ''GET'',
      headers = [],
      body = None,
      options = [(js ''mode'', js ''cors''), (js ''credentials'', js ''omit''),
                 (js ''redirect'', js ''follow''), (js ''cache'', js ''no-store''),
                 (js ''referrerPolicy'', js ''no-referrer'')]\<rparr>"

text \<open>
  What a promise comes to when it need not settle: it is fulfilled with a value, it is
  rejected with an exception, or it stays pending for ever.
\<close>

datatype 'a promise = Fulfilled 'a | Rejected js_error | Pending

text \<open>
  The body of the \<open>try\<close>. The timer is cleared by a statement behind the \<open>await\<close> of the
  \<open>fetch\<close>, which runs only when the \<open>fetch\<close> has resolved, and before \<open>res.text()\<close> is
  awaited: no timer is armed while the body is read, so a read that stalls is never
  aborted and the call stays pending.
\<close>

definition tryFetchUrlContent_try ::
  "platform \<Rightarrow> jsstring \<Rightarrow> jsstring option promise \<times> event list" where
  "tryFetchUrlContent_try env s =
     (case new_URL env s of
        None \<Rightarrow> (Rejected (Raised TypeError), [])
      | Some u \<Rightarrow>
          if protocol u \<noteq> js ''http:'' \<and> protocol u \<noteq> js ''https:'' then (Fulfilled None, [])
          else (case await_fetch env 8000 (fetch_request u) of
                  (Inl e, tr) \<Rightarrow> (Rejected e, [Set_timeout 8000] @ tr)
                | (Inr res, tr) \<Rightarrow>
                    (if \<not> ok res then Fulfilled None
                     else (case text_body res of
                             Body html \<Rightarrow> Fulfilled (Some (extract_text html))
                           | Body_rejects e \<Rightarrow> Rejected (Raised e)
                           | Body_stalls \<Rightarrow> Pending),
                     [Set_timeout 8000] @ tr @ [Clear_timeout])))"

text \<open>\<open>catch { return null; }\<close>\<close>

definition tryFetchUrlContent ::
  "platform \<Rightarrow> jsstring \<Rightarrow> jsstring option promise \<times> event list" where
  "tryFetchUrlContent env s =
     (case tryFetchUrlContent_try env s of
        (Rejected e, tr) \<Rightarrow> (Fulfilled None, tr)
      | (Fulfilled v, tr) \<Rightarrow> (Fulfilled v, tr)
      | (Pending, tr) \<Rightarrow> (Pending, tr))"

section \<open>Orchestrator (Index.tsx)\<close>

text \<open>
  \<open>LENGTH_PRESETS[k]\<close>. The table is an object literal, so a read finds the three own
  properties and, for any other name, what \<open>Object.prototype\<close> defines under it: a
  built-in function or object, never \<open>null\<close> or \<open>undefined\<close>. Only a name found in neither
  place reads as \<open>undefined\<close>.
\<close>

datatype property = Own nat | Inherited jsstring | Missing

definition Object_prototype :: "jsstring list" where
  "Object_prototype =
     map js [''constructor'', ''hasOwnProperty'', ''isPrototypeOf'', ''propertyIsEnumerable'',
             ''toLocaleString'', ''toString'', ''valueOf'', ''__proto__'', ''__defineGetter__'',
             ''__defineSetter__'', ''__lookupGetter__'', ''__lookupSetter__'']"

definition LENGTH_PRESETS :: "jsstring \<Rightarrow> property" where
  "LENGTH_PRESETS k =
     (if k = js ''short'' then Own 300
      else if k = js ''medium'' then Own 700
      else if k = js ''long'' then Own 1200
      else if k \<in> set Object_prototype then Inherited k
      else Missing)"

definition MAX_TEXT :: nat where
  "MAX_TEXT = 12000"

text \<open>What a template literal prints for a value read from the table.\<close>

definition text_of :: "platform \<Rightarrow> property \<Rightarrow> jsstring" where
  "text_of env v =
     (case v of
        Own n \<Rightarrow> show_nat n
      | Inherited k \<Rightarrow> inherited_text env k
      | Missing \<Rightarrow> js ''undefined'')"

text \<open>
  The state of the page that the two handlers read. \<open>providerKey\<close> is the memoised
  \<open>getApiKey(provider)\<close>; \<open>length_preset\<close> is the state variable \<open>length\<close>.
\<close>

record index_state =
  provider :: Provider
  providerKey :: "jsstring option"
  topic :: jsstring
  length_preset :: jsstring
  sourceText :: jsstring
  sourceUrl :: jsstring

definition ensureKey :: "index_state \<Rightarrow> bool \<times> event list" where
  "ensureKey st =
     (if providerKey st = None \<or> providerKey st = Some []
      then (False, [Toast_error (js ''Add your API key in Settings (top right).'')])
      else (True, []))"

text \<open>
  \<open>providerKey!\<close>: the assertion is erased at run time, and both clients use the key
  in a template literal only, which prints \<open>null\<close> as the text \<open>null\<close>.
\<close>

definition asserted_key :: "index_state \<Rightarrow> jsstring" where
  "asserted_key st = (case providerKey st of None \<Rightarrow> js ''null'' | Some k \<Rightarrow> k)"

definition call_provider ::
  "platform \<Rightarrow> index_state \<Rightarrow> jsstring \<Rightarrow> (js_error + jsstring) \<times> event list" where
  "call_provider env st prompt =
     (if provider st = OpenAI then callOpenAI env (asserted_key st) prompt
      else callGemini env (asserted_key st) prompt)"

text \<open>\<open>e?.message\<close> of a caught exception.\<close>

definition message :: "platform \<Rightarrow> js_error \<Rightarrow> jsstring" where
  "message env e = (case e of Error m \<Rightarrow> m | Raised k \<Rightarrow> error_message env k)"

definition generate_prompt :: "platform \<Rightarrow> jsstring \<Rightarrow> jsstring \<Rightarrow> jsstring" where
  "generate_prompt env cleanTopic len =
     (let words = (case LENGTH_PRESETS len of
                     Missing \<Rightarrow> LENGTH_PRESETS (js ''medium'')
                   | v \<Rightarrow> v)
      in js ''Write an informative, SEO-friendly article about '' @ [0x0022] @ cleanTopic @ [0x0022]
         @ js '' in about '' @ text_of env words
         @ js '' words. Use clear headings and short paragraphs. End with a brief conclusion.'')"

definition onGenerate :: "platform \<Rightarrow> index_state \<Rightarrow> event list" where
  "onGenerate env st =
     (let cleanTopic = trim (collapse_spaces (topic st))
      in if cleanTopic = [] then [Toast_error (js ''Please enter a topic or keyword.'')]
         else if 120 < length cleanTopic
           then [Toast_error (js ''Topic is too long (max 120 characters).'')]
         else (case ensureKey st of
                 (have_key, tr) \<Rightarrow>
                   if \<not> have_key then tr
                   else tr @ [Set_generating True, Set_article []]
                     @ (case call_provider env st (generate_prompt env cleanTopic (length_preset st)) of
                          (Inr text, tr') \<Rightarrow> tr' @ [Set_article text]
                        | (Inl e, tr') \<Rightarrow>
                            tr' @ [Console_error e,
                                   Toast_error (or_default (Some (message env e))
                                                  (js ''Generation failed''))])
                     @ [Set_generating False]))"

definition summarize_prompt :: "jsstring \<Rightarrow> jsstring" where
  "summarize_prompt text =
     js ''Summarize the following article in a concise, clear, bullet-point format under 150 words.''
     @ [0x000A, 0x000A] @ js ''Article:'' @ [0x000A] @ text"

text \<open>\<open>onSummarize\<close> from the check \<open>if (!text)\<close> on, for the text found so far.\<close>

definition summarize_text :: "platform \<Rightarrow> index_state \<Rightarrow> jsstring \<Rightarrow> event list" where
  "summarize_text env st text0 =
     (if text0 = [] then [Toast_error (js ''Paste text or provide a URL.'')]
      else (case (if MAX_TEXT < length text0
                  then (take MAX_TEXT text0,
                        [Toast_warning (js ''Input truncated to prevent oversized requests.'')])
                  else (text0, [])) of
              (text, tr) \<Rightarrow>
                tr @ [Set_summarizing True, Set_summary []]
                @ (case call_provider env st (summarize_prompt text) of
                     (Inr result, tr') \<Rightarrow> tr' @ [Set_summary result]
                   | (Inl e, tr') \<Rightarrow>
                       tr' @ [Console_error e,
                              Toast_error (or_default (Some (message env e))
                                             (js ''Summarization failed''))])
                @ [Set_summarizing False]))"

definition onSummarize :: "platform \<Rightarrow> index_state \<Rightarrow> event list" where
  "onSummarize env st =
     (case ensureKey st of
        (have_key, tr) \<Rightarrow>
          if \<not> have_key then tr
          else tr @
            (let text = trim (sourceText st)
             in if text = [] \<and> trim (sourceUrl st) \<noteq> [] then
                  (case new_URL env (trim (sourceUrl st)) of
                     None \<Rightarrow> [Toast_error (js ''Enter a valid http(s) URL.'')]
                   | Some u \<Rightarrow>
                       if protocol u \<noteq> js ''http:'' \<and> protocol u \<noteq> js ''https:''
                       then [Toast_error (js ''Enter a valid http(s) URL.'')]
                       else (case tryFetchUrlContent env (trim (sourceUrl st)) of
                               (Rejected e, tr') \<Rightarrow> tr' @ [Uncaught e]
                             | (Pending, tr') \<Rightarrow> tr'
                             | (Fulfilled fetched, tr') \<Rightarrow>
                                 if fetched = None \<or> fetched = Some [] then
                                   tr' @ [Toast_error
                                     (js ''Could not fetch URL (CORS). Please paste the article text.'')]
                                 else tr' @ summarize_text env st (or_default fetched [])))
                else summarize_text env st text))"

text \<open>The requests a run has put on the network, and how often it cleared a timer.\<close>

fun fetches :: "event list \<Rightarrow> request list" where
  "fetches [] = []"
| "fetches (Fetch req # tr) = req # fetches tr"
| "fetches (e # tr) = fetches tr"

definition timers_cleared :: "event list \<Rightarrow> nat" where
  "timers_cleared tr = count_list tr Clear_timeout"

definition timers_set :: "event list \<Rightarrow> nat" where
  "timers_set tr = length (filter (\<lambda>e. case e of Set_timeout d \<Rightarrow> True | _ \<Rightarrow> False) tr)"

text \<open>
  The page as it is first rendered when no key is stored: the defaults of its
  \<open>useState\<close> calls, and \<open>getApiKey\<close> answering \<open>null\<close>.
\<close>

definition initial_state :: index_state where
  "initial_state =
     \<lparr>provider = OpenAI, providerKey = None, topic = [], length_preset = js ''medium'',
      sourceText = [], sourceUrl = []\<rparr>"

text \<open>
  Mounting the page over the stores \<open>b\<close>. The first render has the provider \<open>"openai"\<close>
  and computes \<open>providerKey\<close> as \<open>useMemo(() => getApiKey(provider), [provider])\<close>. The
  effect then sets the provider to \<open>getStoredProvider()\<close>; the memo is computed again only
  if that changes the provider, its one dependency. Nothing sets the provider
  afterwards, so the page keeps this provider and this key whatever is saved later.
\<close>

definition first_render :: "browser \<Rightarrow> index_state" where
  "first_render b =
     \<lparr>provider = OpenAI, providerKey = getApiKey OpenAI b, topic = [],
      length_preset = js ''medium'', sourceText = [], sourceUrl = []\<rparr>"

definition mount :: "browser \<Rightarrow> index_state" where
  "mount b =
     (let st = first_render b; p = getStoredProvider b
      in if p = provider st then st else st\<lparr>provider := p, providerKey := getApiKey p b\<rparr>)"

text \<open>
  The page is in step with the stores \<open>b\<close>: the provider and the key it holds are the
  ones a read of \<open>b\<close> gives.
\<close>

definition in_step :: "index_state \<Rightarrow> browser \<Rightarrow> bool" where
  "in_step st b \<longleftrightarrow>
     provider st = getStoredProvider b \<and> providerKey st = getApiKey (getStoredProvider b) b"

text \<open>The stores of a browser that has never saved anything.\<close>

definition empty_stores :: browser where
  "empty_stores = \<lparr>localStorage = Map.empty, sessionStorage = Map.empty\<rparr>"

text \<open>
  The stores after the key \<open>"k"\<close> has been saved for OpenAI from the dialog, and after a
  second save with both key fields empty.
\<close>

definition stores_with_key :: browser where
  "stores_with_key = fst (onSave OpenAI (js ''local'') (js ''k'') [] empty_stores)"

definition stores_cleared :: browser where
  "stores_cleared = fst (onSave OpenAI (js ''local'') [] [] stores_with_key)"

text \<open>The warnings a run has shown.\<close>

fun warnings :: "event list \<Rightarrow> jsstring list" where
  "warnings [] = []"
| "warnings (Toast_warning w # tr) = w # warnings tr"
| "warnings (e # tr) = warnings tr"

section \<open>Concrete platforms\<close>

text \<open>
  A platform for evaluating the code on concrete inputs: the network treats every request
  in the given way, and the URL parser knows two addresses.
\<close>

definition example_new_URL :: "jsstring \<Rightarrow> js_url option" where
  "example_new_URL s =
     (if s = js ''https://example.com''
        then Some \<lparr>protocol = js ''https:'', href = js ''https://example.com/''\<rparr>
      else if s = js ''ftp://example.com''
        then Some \<lparr>protocol = js ''ftp:'', href = js ''ftp://example.com/''\<rparr>
      else None)"

definition example_error_message :: "platform_error \<Rightarrow> jsstring" where
  "example_error_message k =
     (case k of
        TypeError \<Rightarrow> js ''Failed to fetch''
      | SyntaxError \<Rightarrow> js ''Unexpected token''
      | AbortError \<Rightarrow> js ''The user aborted a request.'')"

definition example_inherited_text :: "jsstring \<Rightarrow> jsstring" where
  "example_inherited_text k =
     (if k = js ''__proto__'' then js ''[object Object]''
      else if k = js ''constructor'' then js ''function Object() { [native code] }''
      else js ''function '' @ k @ js ''() { [native code] }'')"

definition network :: "fetch_behaviour \<Rightarrow> platform" where
  "network b =
     \<lparr>fetch = (\<lambda>req. b),
      new_URL = example_new_URL,
      error_message = example_error_message,
      inherited_text = example_inherited_text\<rparr>"

section \<open>Properties of the Key Store\<close>

lemma LOCAL_KEYS_distinct:
  "LOCAL_KEYS_openai \<noteq> LOCAL_KEYS_gemini" "LOCAL_KEYS_gemini \<noteq> LOCAL_KEYS_openai"
  "LOCAL_KEYS_openai \<noteq> LOCAL_KEYS_provider" "LOCAL_KEYS_provider \<noteq> LOCAL_KEYS_openai"
  "LOCAL_KEYS_openai \<noteq> LOCAL_KEYS_storeMode" "LOCAL_KEYS_storeMode \<noteq> LOCAL_KEYS_openai"
  "LOCAL_KEYS_gemini \<noteq> LOCAL_KEYS_provider" "LOCAL_KEYS_provider \<noteq> LOCAL_KEYS_gemini"
  "LOCAL_KEYS_gemini \<noteq> LOCAL_KEYS_storeMode" "LOCAL_KEYS_storeMode \<noteq> LOCAL_KEYS_gemini"
  "LOCAL_KEYS_provider \<noteq> LOCAL_KEYS_storeMode" "LOCAL_KEYS_storeMode \<noteq> LOCAL_KEYS_provider"
  by (simp_all add: LOCAL_KEYS_openai_def LOCAL_KEYS_gemini_def LOCAL_KEYS_provider_def
      LOCAL_KEYS_storeMode_def js_def)

lemma mode_strings:
  "js ''local'' \<noteq> js ''session''" "js ''local'' \<noteq> []" "js ''session'' \<noteq> []"
  "js ''openai'' \<noteq> js ''gemini''" "js ''gemini'' \<noteq> []" "js ''openai'' \<noteq> []"
  by (simp_all add: js_def)

lemma getApiKey_reads_persisted_store:
  "getApiKey p b = getItem (target_store (persisted_mode b)) (key_name p) b"
  by (simp add: getApiKey_def persisted_mode_def target_store_def key_name_def Let_def)

lemma onSave_other_store_cleared:
  "getItem (other_store m) (key_name p') (fst (onSave p m ka kb b)) = None"
  by (cases p') (simp_all add: onSave_def other_store_def key_name_def getItem_def storage_of_def
      setItem_def removeItem_def Let_def LOCAL_KEYS_distinct)

lemma onSave_persists_mode:
  "getItem LocalStorage LOCAL_KEYS_storeMode (fst (onSave p m ka kb b)) = Some m"
  by (simp add: onSave_def getItem_def storage_of_def setItem_def removeItem_def Let_def
      LOCAL_KEYS_distinct)

lemma onSave_persists_provider:
  "getItem LocalStorage LOCAL_KEYS_provider (fst (onSave p m ka kb b)) = Some (provider_id p)"
  by (simp add: onSave_def getItem_def storage_of_def setItem_def removeItem_def Let_def
      LOCAL_KEYS_distinct)

lemma onSave_target_store:
  "getItem (target_store m) (key_name p') (fst (onSave p m ka kb b)) =
     (let k = (if p' = OpenAI then ka else kb) in if k = [] then None else Some k)"
  by (cases p') (simp_all add: onSave_def target_store_def key_name_def getItem_def storage_of_def
      setItem_def removeItem_def Let_def LOCAL_KEYS_distinct)

text \<open>
  C1. After every save, the store that does not match the saved storage mode holds no key
  for either provider. \<open>getApiKey\<close> reads the store that matches the persisted mode, and
  a key written into the other store does not change what it reads. So the key \<open>"x"\<close>
  saved under the session mode is read back under that mode, and once the persisted mode
  is set to \<open>"local"\<close> \<open>getApiKey\<close> finds no key for either provider, whatever was saved.
\<close>

theorem key_store_mutual_exclusion:
  "getItem (other_store m) LOCAL_KEYS_openai (fst (onSave p m ka kb b)) = None \<and>
   getItem (other_store m) LOCAL_KEYS_gemini (fst (onSave p m ka kb b)) = None \<and>
   getApiKey q b = getItem (target_store (persisted_mode b)) (key_name q) b \<and>
   getApiKey q (setItem (other_store (persisted_mode b)) (key_name q') v b) = getApiKey q b \<and>
   getApiKey OpenAI (fst (onSave p (js ''session'') (js ''x'') kb b)) = Some (js ''x'') \<and>
   getApiKey q (setItem LocalStorage LOCAL_KEYS_storeMode (js ''local'')
                  (fst (onSave p (js ''session'') ka kb b))) = None"
proof -
  have 1: "getItem (other_store m) LOCAL_KEYS_openai (fst (onSave p m ka kb b)) = None"
    using onSave_other_store_cleared [of m OpenAI p ka kb b] by (simp add: key_name_def)
  have 2: "getItem (other_store m) LOCAL_KEYS_gemini (fst (onSave p m ka kb b)) = None"
    using onSave_other_store_cleared [of m Gemini p ka kb b] by (simp add: key_name_def)
  have 3: "getApiKey q (setItem LocalStorage LOCAL_KEYS_storeMode (js ''local'')
                  (fst (onSave p (js ''session'') ka kb b))) = None"
    by (cases q) (simp_all add: getApiKey_def onSave_def getItem_def storage_of_def setItem_def
        removeItem_def or_default_def Let_def LOCAL_KEYS_distinct mode_strings)
  have 4: "getApiKey q (setItem (other_store (persisted_mode b)) (key_name q') v b) = getApiKey q b"
    by (simp add: getApiKey_def persisted_mode_def other_store_def key_name_def getItem_def
        storage_of_def setItem_def Let_def LOCAL_KEYS_distinct)
  have 5: "getApiKey OpenAI (fst (onSave p (js ''session'') (js ''x'') kb b)) = Some (js ''x'')"
    by (simp add: getApiKey_def onSave_def getItem_def storage_of_def setItem_def
        removeItem_def or_default_def Let_def LOCAL_KEYS_distinct mode_strings)
      (simp add: js_def)
  from 1 2 3 4 5 getApiKey_reads_persisted_store show ?thesis by simp
qed

text \<open>
  C3. Saving provider Gemini under the \<open>"local"\<close> mode with an empty OpenAI key and the
  Gemini key \<open>"g-key"\<close>, from any state of the two stores, and reading back: the stored
  provider is Gemini, its key is \<open>"g-key"\<close>, and there is no OpenAI key.
\<close>

theorem save_read_round_trip:
  "getStoredProvider (fst (onSave Gemini (js ''local'') [] (js ''g-key'') b)) = Gemini \<and>
   getApiKey Gemini (fst (onSave Gemini (js ''local'') [] (js ''g-key'') b)) = Some (js ''g-key'') \<and>
   getApiKey OpenAI (fst (onSave Gemini (js ''local'') [] (js ''g-key'') b)) = None"
proof -
  let ?b = "fst (onSave Gemini (js ''local'') [] (js ''g-key'') b)"
  have g: "js ''g-key'' \<noteq> []" by (simp add: js_def)
  have 1: "getStoredProvider ?b = Gemini"
    by (simp add: getStoredProvider_def onSave_persists_provider provider_id_def or_default_def
        mode_strings)
  have m: "persisted_mode ?b = js ''local''"
    by (simp add: persisted_mode_def onSave_persists_mode or_default_def mode_strings)
  have 2: "getApiKey Gemini ?b = Some (js ''g-key'')"
    using onSave_target_store [of "js ''local''" Gemini Gemini "[]" "js ''g-key''" b] g
    by (simp add: getApiKey_reads_persisted_store m)
  have 3: "getApiKey OpenAI ?b = None"
    using onSave_target_store [of "js ''local''" OpenAI Gemini "[]" "js ''g-key''" b]
    by (simp add: getApiKey_reads_persisted_store m)
  from 1 2 3 show ?thesis by simp
qed

text \<open>
  C9. \<open>getStoredProvider\<close> answers Gemini exactly when the persisted selection is the
  string \<open>"gemini"\<close>, and OpenAI for every other content of the store, a missing entry
  included.
\<close>

theorem getStoredProvider_default:
  "getStoredProvider b =
     (if getItem LocalStorage LOCAL_KEYS_provider b = Some (js ''gemini'') then Gemini else OpenAI)"
  by (auto simp: getStoredProvider_def or_default_def Let_def mode_strings split: option.splits)

section \<open>Traces of the network calls\<close>

lemma fetches_append: "fetches (xs @ ys) = fetches xs @ fetches ys"
  by (induction xs rule: fetches.induct) simp_all

lemma timers_cleared_append: "timers_cleared (xs @ ys) = timers_cleared xs + timers_cleared ys"
  by (simp add: timers_cleared_def)

lemma await_fetch_cases:
  "(\<exists>res. await_fetch env d req = (Inr res, [Fetch req]) \<and>
          (\<exists>t. fetch env req = Settles_after t (Response res) \<and> t < d)) \<or>
   await_fetch env d req = (Inl (Raised TypeError), [Fetch req]) \<or>
   await_fetch env d req = (Inl (Raised AbortError), [Fetch req, Timer_fired])"
  by (auto simp: await_fetch_def split: fetch_behaviour.splits fetch_result.splits)

lemma await_fetch_trace:
  "fetches (snd (await_fetch env d req)) = [req]"
  "timers_cleared (snd (await_fetch env d req)) = 0"
  using await_fetch_cases [of env d req] by (auto simp: timers_cleared_def)

lemma callOpenAI_try_trace:
  "fetches (snd (callOpenAI_try env k p)) = [openai_request k p]"
  "timers_cleared (snd (callOpenAI_try env k p)) = 0"
  "warnings (snd (callOpenAI_try env k p)) = []"
  using await_fetch_cases [of env 30000 "openai_request k p"]
  by (auto simp: callOpenAI_try_def timers_cleared_def split: body_read.splits)

lemma callGemini_try_trace:
  "fetches (snd (callGemini_try env k p)) = [gemini_request k p]"
  "timers_cleared (snd (callGemini_try env k p)) = 0"
  "warnings (snd (callGemini_try env k p)) = []"
  using await_fetch_cases [of env 30000 "gemini_request k p"]
  by (auto simp: callGemini_try_def timers_cleared_def split: body_read.splits)

lemma callOpenAI_trace:
  "snd (callOpenAI env k p) = [Set_timeout 30000] @ snd (callOpenAI_try env k p) @ [Clear_timeout]"
  by (simp add: callOpenAI_def split: prod.splits)

lemma callGemini_trace:
  "snd (callGemini env k p) = [Set_timeout 30000] @ snd (callGemini_try env k p) @ [Clear_timeout]"
  by (simp add: callGemini_def split: prod.splits)

lemma provider_client_clears_timer_once:
  "timers_cleared (snd (callOpenAI env k p)) = 1"
  "timers_cleared (snd (callGemini env k p)) = 1"
  using callOpenAI_try_trace(2) [of env k p] callGemini_try_trace(2) [of env k p]
  by (simp_all add: callOpenAI_trace callGemini_trace timers_cleared_def)

lemma provider_client_fetches:
  "fetches (snd (callOpenAI env k p)) = [openai_request k p]"
  "fetches (snd (callGemini env k p)) = [gemini_request k p]"
  by (simp_all add: callOpenAI_trace callGemini_trace fetches_append callOpenAI_try_trace
      callGemini_try_trace)

lemma provider_client_timeout:
  assumes "fetch env (openai_request k p) = Never_settles \<or>
           (\<exists>t r. fetch env (openai_request k p) = Settles_after t r \<and> 30000 \<le> t)"
  shows "callOpenAI env k p =
           (Inl (Raised AbortError),
            [Set_timeout 30000, Fetch (openai_request k p), Timer_fired, Clear_timeout])"
  using assms by (auto simp: callOpenAI_def callOpenAI_try_def await_fetch_def)

lemma content_fetcher_timer:
  assumes "new_URL env s = Some u" and "protocol u = js ''http:'' \<or> protocol u = js ''https:''"
  shows "timers_cleared (snd (tryFetchUrlContent env s)) =
           (if \<exists>t res. fetch env (fetch_request u) = Settles_after t (Response res) \<and> t < 8000
            then 1 else 0)"
  using assms
  by (auto simp: tryFetchUrlContent_def tryFetchUrlContent_try_def await_fetch_def
      timers_cleared_def split: fetch_behaviour.splits fetch_result.splits body_read.splits)

text \<open>
  C2. The two provider clients clear their timer exactly once on every path (lemma
  \<open>provider_client_clears_timer_once\<close>). The Content Fetcher does not: when the \<open>fetch\<close>
  of an \<open>https\<close> address fails on the network, the call returns \<open>null\<close> having armed
  the 8000 ms timer and never cleared it.
\<close>

theorem content_fetcher_leaves_timer_armed:
  "tryFetchUrlContent (network (Settles_after 0 Network_error)) (js ''https://example.com'') =
     (Fulfilled None,
      [Set_timeout 8000,
       Fetch (fetch_request \<lparr>protocol = js ''https:'', href = js ''https://example.com/''\<rparr>)]) \<and>
   timers_set (snd (tryFetchUrlContent (network (Settles_after 0 Network_error))
                      (js ''https://example.com''))) = 1 \<and>
   timers_cleared (snd (tryFetchUrlContent (network (Settles_after 0 Network_error))
                          (js ''https://example.com''))) = 0"
  by (simp add: tryFetchUrlContent_def tryFetchUrlContent_try_def await_fetch_def network_def
      example_new_URL_def timers_cleared_def timers_set_def)

lemma warnings_append: "warnings (xs @ ys) = warnings xs @ warnings ys"
  by (induction xs rule: warnings.induct) simp_all

section \<open>White space\<close>

lemma collapse_spaces_no_space:
  "\<forall>c \<in> set s. \<not> is_space c \<Longrightarrow> collapse_spaces s = s"
  by (induction s) simp_all

lemma dropWhile_none:
  "\<forall>c \<in> set s. \<not> P c \<Longrightarrow> dropWhile P s = s"
  by (cases s) simp_all

lemma trim_no_space:
  "\<forall>c \<in> set s. \<not> is_space c \<Longrightarrow> trim s = s"
  by (simp add: trim_def dropWhile_none)

lemma not_space_a: "\<not> is_space 0x0061"
  by (simp add: is_space_def)

lemma clean_replicate_a:
  "trim (collapse_spaces (replicate n 0x0061)) = replicate n 0x0061"
  by (simp add: collapse_spaces_no_space trim_no_space not_space_a)

lemma collapse_spaces_all_space:
  "s \<noteq> [] \<Longrightarrow> \<forall>c \<in> set s. is_space c \<Longrightarrow> collapse_spaces s = [0x0020]"
  by (cases s) (simp_all add: dropWhile_eq_Nil_conv [THEN iffD2])

lemma clean_all_space:
  assumes "\<forall>c \<in> set s. is_space c"
  shows "trim (collapse_spaces s) = []"
proof (cases s)
  case Nil
  then show ?thesis by (simp add: trim_def)
next
  case (Cons c cs)
  with assms have "collapse_spaces s = [0x0020]"
    by (intro collapse_spaces_all_space) simp_all
  then show ?thesis by (simp add: trim_def is_space_def)
qed

section \<open>Orchestrator\<close>

lemma call_provider_fetches:
  "fetches (snd (call_provider env st p)) =
     [if provider st = OpenAI then openai_request (asserted_key st) p
      else gemini_request (asserted_key st) p]"
  by (simp add: call_provider_def provider_client_fetches)

lemma call_provider_warnings:
  "warnings (snd (call_provider env st p)) = []"
  by (simp add: call_provider_def callOpenAI_trace callGemini_trace warnings_append
      callOpenAI_try_trace callGemini_try_trace)

text \<open>
  C4. When the topic, with its white space collapsed and trimmed, is empty, \<open>onGenerate\<close>
  does nothing but show the error "Please enter a topic or keyword."; when it is longer
  than 120 code units, nothing but the error "Topic is too long (max 120 characters).".
  In both cases no request is put on the network. (By \<open>clean_all_space\<close> the first case
  holds every topic made of white space only.)
\<close>

theorem generate_rejects_bad_topic:
  "(trim (collapse_spaces (topic st)) = [] \<longrightarrow>
      onGenerate env st = [Toast_error (js ''Please enter a topic or keyword.'')]) \<and>
   (120 < length (trim (collapse_spaces (topic st))) \<longrightarrow>
      onGenerate env st = [Toast_error (js ''Topic is too long (max 120 characters).'')]) \<and>
   (trim (collapse_spaces (topic st)) = [] \<or> 120 < length (trim (collapse_spaces (topic st))) \<longrightarrow>
      fetches (onGenerate env st) = [])"
  by (auto simp: onGenerate_def Let_def)

theorem generate_rejects_bad_topic_witness:
  "onGenerate (network Never_settles) (initial_state\<lparr>topic := js ''  ''\<rparr>) =
     [Toast_error (js ''Please enter a topic or keyword.'')] \<and>
   onGenerate (network Never_settles) (initial_state\<lparr>topic := replicate 121 0x0061\<rparr>) =
     [Toast_error (js ''Topic is too long (max 120 characters).'')] \<and>
   fetches (onGenerate (network Never_settles) (initial_state\<lparr>topic := replicate 121 0x0061\<rparr>)) = []"
proof -
  have 1: "trim (collapse_spaces (topic (initial_state\<lparr>topic := js ''  ''\<rparr>))) = []"
    by (simp add: js_def is_space_def trim_def)
  have 2: "120 < length (trim (collapse_spaces (topic (initial_state\<lparr>topic := replicate 121 0x0061\<rparr>))))"
    by (simp add: clean_replicate_a)
  from 1 2
    generate_rejects_bad_topic [of "initial_state\<lparr>topic := js ''  ''\<rparr>" "network Never_settles"]
    generate_rejects_bad_topic [of "initial_state\<lparr>topic := replicate 121 0x0061\<rparr>" "network Never_settles"]
  show ?thesis by blast
qed

lemma summary_result_fetches:
  "fetches (case r of (Inr result, tr') \<Rightarrow> tr' @ [Set_summary result]
                    | (Inl e, tr') \<Rightarrow> tr' @ [Console_error e, Toast_error (f e)]) =
     fetches (snd r)"
  by (auto simp: fetches_append split: prod.splits sum.splits)

lemma summary_result_warnings:
  "warnings (case r of (Inr result, tr') \<Rightarrow> tr' @ [Set_summary result]
                     | (Inl e, tr') \<Rightarrow> tr' @ [Console_error e, Toast_error (f e)]) =
     warnings (snd r)"
  by (auto simp: warnings_append split: prod.splits sum.splits)

lemma summarize_text_fetches:
  assumes "text0 \<noteq> []"
  shows "fetches (summarize_text env st text0) =
           [if provider st = OpenAI
            then openai_request (asserted_key st)
                   (summarize_prompt (if MAX_TEXT < length text0 then take MAX_TEXT text0 else text0))
            else gemini_request (asserted_key st)
                   (summarize_prompt (if MAX_TEXT < length text0 then take MAX_TEXT text0 else text0))]"
  using assms
  by (simp add: summarize_text_def fetches_append summary_result_fetches call_provider_fetches)

lemma summarize_text_warnings:
  assumes "text0 \<noteq> []"
  shows "warnings (summarize_text env st text0) =
           (if MAX_TEXT < length text0 then [js ''Input truncated to prevent oversized requests.'']
            else [])"
  using assms
  by (simp add: summarize_text_def warnings_append summary_result_warnings call_provider_warnings)

section \<open>Provider clients\<close>

lemma await_fetch_resolved:
  assumes "fetch env req = Settles_after t (Response res)" and "t < d"
  shows "await_fetch env d req = (Inr res, [Fetch req])"
  using assms by (simp add: await_fetch_def)

lemma callOpenAI_resolved:
  assumes "fetch env (openai_request k p) = Settles_after t (Response res)" and "t < 30000"
  shows "fst (callOpenAI env k p) =
           (if \<not> ok res then Inl (Error (js ''OpenAI error '' @ show_nat (status res)))
            else case json_body res of
                   Body data \<Rightarrow> openai_text data
                 | Body_rejects e \<Rightarrow> Inl (Raised e)
                 | Body_stalls \<Rightarrow> Inl (Raised AbortError))"
  using await_fetch_resolved [OF assms]
  by (simp add: callOpenAI_def callOpenAI_try_def split: body_read.splits)

lemma callGemini_resolved:
  assumes "fetch env (gemini_request k p) = Settles_after t (Response res)" and "t < 30000"
  shows "fst (callGemini env k p) =
           (if \<not> ok res then Inl (Error (js ''Gemini error '' @ show_nat (status res)))
            else case json_body res of
                   Body data \<Rightarrow> gemini_text data
                 | Body_rejects e \<Rightarrow> Inl (Raised e)
                 | Body_stalls \<Rightarrow> Inl (Raised AbortError))"
  using await_fetch_resolved [OF assms]
  by (simp add: callGemini_def callGemini_try_def split: body_read.splits)

lemma provider_client_stalled_body:
  assumes "fetch env (openai_request k p) = Settles_after t (Response res)" and "t < 30000"
    and "ok res" and "json_body res = Body_stalls"
  shows "callOpenAI env k p =
           (Inl (Raised AbortError),
            [Set_timeout 30000, Fetch (openai_request k p), Timer_fired, Clear_timeout])"
  using await_fetch_resolved [OF assms(1,2)] assms(3,4)
  by (simp add: callOpenAI_def callOpenAI_try_def)

lemma openai_text_string:
  "\<not> nullish data \<Longrightarrow> openai_path data = JStr s \<Longrightarrow> openai_text data = Inr (trim s)"
  by (simp add: openai_text_def)

lemma openai_text_absent:
  "\<not> nullish data \<Longrightarrow> nullish (openai_path data) \<Longrightarrow> openai_text data = Inr []"
  by (auto simp: openai_text_def nullish_def)

lemma gemini_text_string:
  "\<not> nullish data \<Longrightarrow> gemini_path data = JStr s \<Longrightarrow> gemini_text data = Inr (trim s)"
  by (auto simp: gemini_text_def falsy_def trim_def)

lemma gemini_text_absent:
  "\<not> nullish data \<Longrightarrow> nullish (gemini_path data) \<Longrightarrow> gemini_text data = Inr []"
  by (auto simp: gemini_text_def nullish_def falsy_def trim_def)

text \<open>
  C8, as stated, fails: a response with status 200 does not always make the call return.
  A body that is not JSON makes \<open>res.json()\<close> reject; a body that is the JSON \<open>null\<close>
  makes the read of \<open>choices\<close> throw; and in \<open>callGemini\<close> a number at the response
  path has no \<open>trim\<close>, so \<open>text.trim()\<close> throws.
\<close>

theorem provider_client_counterexample:
  "ok \<lparr>status = 200, json_body = Body_rejects SyntaxError, text_body = Body (js ''<html></html>'')\<rparr> \<and>
   fst (callOpenAI
          (network (Settles_after 0 (Response
             \<lparr>status = 200, json_body = Body_rejects SyntaxError, text_body = Body (js ''<html></html>'')\<rparr>)))
          (js ''k'') (js ''hi'')) = Inl (Raised SyntaxError) \<and>
   fst (callOpenAI
          (network (Settles_after 0 (Response
             \<lparr>status = 200, json_body = Body JNull, text_body = Body (js ''null'')\<rparr>)))
          (js ''k'') (js ''hi'')) = Inl (Raised TypeError) \<and>
   fst (callGemini
          (network (Settles_after 0 (Response
             \<lparr>status = 200,
              json_body = Body (JObj [(js ''candidates'', JArr [JObj [(js ''content'',
                            JObj [(js ''parts'', JArr [JObj [(js ''text'', JNum 5)]])])]])]),
              text_body = Body_rejects TypeError\<rparr>)))
          (js ''k'') (js ''hi'')) = Inl (Raised TypeError)"
  by (simp add: callOpenAI_def callOpenAI_try_def callGemini_def callGemini_try_def await_fetch_def
      network_def ok_def openai_text_def gemini_text_def gemini_path_def nullish_def falsy_def
      opt_member_def opt_index0_def js_def)

text \<open>
  C8, amended. For each client, when the request settles with a response before the
  30000 ms timer fires: if the status is not 2xx the call fails with an \<open>Error\<close> whose
  message ends in the decimal status code; if the status is 2xx and the body parses as
  JSON to a value other than \<open>null\<close>, the call returns the string found at the response
  path, trimmed, and the empty string when the path is absent (a step of it is missing
  or \<open>null\<close>).
\<close>

theorem provider_client_contract:
  "(fetch env (openai_request k p) = Settles_after t (Response res) \<and> t < 30000 \<longrightarrow>
      (\<not> ok res \<longrightarrow>
         fst (callOpenAI env k p) = Inl (Error (js ''OpenAI error '' @ show_nat (status res)))) \<and>
      (ok res \<and> json_body res = Body data \<and> \<not> nullish data \<longrightarrow>
         (openai_path data = JStr s \<longrightarrow> fst (callOpenAI env k p) = Inr (trim s)) \<and>
         (nullish (openai_path data) \<longrightarrow> fst (callOpenAI env k p) = Inr []))) \<and>
   (fetch env (gemini_request k p) = Settles_after t (Response res) \<and> t < 30000 \<longrightarrow>
      (\<not> ok res \<longrightarrow>
         fst (callGemini env k p) = Inl (Error (js ''Gemini error '' @ show_nat (status res)))) \<and>
      (ok res \<and> json_body res = Body data \<and> \<not> nullish data \<longrightarrow>
         (gemini_path data = JStr s \<longrightarrow> fst (callGemini env k p) = Inr (trim s)) \<and>
         (nullish (gemini_path data) \<longrightarrow> fst (callGemini env k p) = Inr [])))"
proof -
  have a: "fetch env (openai_request k p) = Settles_after t (Response res) \<Longrightarrow> t < 30000 \<Longrightarrow>
      (\<not> ok res \<longrightarrow>
         fst (callOpenAI env k p) = Inl (Error (js ''OpenAI error '' @ show_nat (status res)))) \<and>
      (ok res \<and> json_body res = Body data \<and> \<not> nullish data \<longrightarrow>
         (openai_path data = JStr s \<longrightarrow> fst (callOpenAI env k p) = Inr (trim s)) \<and>
         (nullish (openai_path data) \<longrightarrow> fst (callOpenAI env k p) = Inr []))"
    by (simp add: callOpenAI_resolved openai_text_string openai_text_absent)
  have b: "fetch env (gemini_request k p) = Settles_after t (Response res) \<Longrightarrow> t < 30000 \<Longrightarrow>
      (\<not> ok res \<longrightarrow>
         fst (callGemini env k p) = Inl (Error (js ''Gemini error '' @ show_nat (status res)))) \<and>
      (ok res \<and> json_body res = Body data \<and> \<not> nullish data \<longrightarrow>
         (gemini_path data = JStr s \<longrightarrow> fst (callGemini env k p) = Inr (trim s)) \<and>
         (nullish (gemini_path data) \<longrightarrow> fst (callGemini env k p) = Inr []))"
    by (simp add: callGemini_resolved gemini_text_string gemini_text_absent)
  from a b show ?thesis by blast
qed

theorem provider_client_contract_witness:
  "fst (callOpenAI (network (Settles_after 0 (Response
          \<lparr>status = 404, json_body = Body_rejects SyntaxError, text_body = Body_rejects TypeError\<rparr>))) (js ''k'') (js ''hi'')) =
     Inl (Error (js ''OpenAI error 404'')) \<and>
   fst (callGemini (network (Settles_after 0 (Response
          \<lparr>status = 404, json_body = Body_rejects SyntaxError, text_body = Body_rejects TypeError\<rparr>))) (js ''k'') (js ''hi'')) =
     Inl (Error (js ''Gemini error 404'')) \<and>
   fst (callOpenAI (network (Settles_after 0 (Response
          \<lparr>status = 200,
           json_body = Body (JObj [(js ''choices'', JArr [JObj [(js ''message'',
                         JObj [(js ''content'', JStr (js '' hi there ''))])]])]),
           text_body = Body_rejects TypeError\<rparr>))) (js ''k'') (js ''hi'')) = Inr (js ''hi there'') \<and>
   fst (callGemini (network (Settles_after 0 (Response
          \<lparr>status = 200,
           json_body = Body (JObj [(js ''candidates'', JArr [JObj [(js ''content'',
                         JObj [(js ''parts'', JArr [JObj [(js ''text'', JStr (js '' hi there ''))]])])]])]),
           text_body = Body_rejects TypeError\<rparr>))) (js ''k'') (js ''hi'')) = Inr (js ''hi there'') \<and>
   fst (callOpenAI (network (Settles_after 0 (Response
          \<lparr>status = 200, json_body = Body (JObj []), text_body = Body_rejects TypeError\<rparr>))) (js ''k'') (js ''hi'')) =
     Inr [] \<and>
   fst (callGemini (network (Settles_after 0 (Response
          \<lparr>status = 200, json_body = Body (JObj []), text_body = Body_rejects TypeError\<rparr>))) (js ''k'') (js ''hi'')) =
     Inr []"
proof -
  let ?r1 = "\<lparr>status = 404, json_body = Body_rejects SyntaxError, text_body = Body_rejects TypeError\<rparr>"
  let ?d2 = "JObj [(js ''choices'', JArr [JObj [(js ''message'',
                         JObj [(js ''content'', JStr (js '' hi there ''))])]])]"
  let ?d3 = "JObj [(js ''candidates'', JArr [JObj [(js ''content'',
                         JObj [(js ''parts'', JArr [JObj [(js ''text'', JStr (js '' hi there ''))]])])]])]"
  let ?r2 = "\<lparr>status = 200, json_body = Body ?d2, text_body = Body_rejects TypeError\<rparr>"
  let ?r3 = "\<lparr>status = 200, json_body = Body ?d3, text_body = Body_rejects TypeError\<rparr>"
  let ?r4 = "\<lparr>status = 200, json_body = Body (JObj []), text_body = Body_rejects TypeError\<rparr>"
  have t: "trim (js '' hi there '') = js ''hi there''"
    by (simp add: trim_def js_def is_space_def)
  have p2: "openai_path ?d2 = JStr (js '' hi there '')"
    by (simp add: openai_path_def opt_member_def opt_index0_def nullish_def js_def)
  have p3: "gemini_path ?d3 = JStr (js '' hi there '')"
    by (simp add: gemini_path_def opt_member_def opt_index0_def nullish_def js_def)
  have p4: "nullish (openai_path (JObj []))" "nullish (gemini_path (JObj []))"
    by (simp_all add: openai_path_def gemini_path_def opt_member_def opt_index0_def nullish_def)
  have n: "\<not> nullish ?d2" "\<not> nullish ?d3" "\<not> nullish (JObj [])"
    by (simp_all add: nullish_def)
  have s: "js ''OpenAI error '' @ show_nat 404 = js ''OpenAI error 404''"
    "js ''Gemini error '' @ show_nat 404 = js ''Gemini error 404''"
    by (simp_all add: show_nat.simps js_def)
  from provider_client_contract
    [of "network (Settles_after 0 (Response ?r1))" "js ''k''" "js ''hi''" 0 ?r1]
  have 1: "fst (callOpenAI (network (Settles_after 0 (Response ?r1))) (js ''k'') (js ''hi'')) =
             Inl (Error (js ''OpenAI error 404''))"
    "fst (callGemini (network (Settles_after 0 (Response ?r1))) (js ''k'') (js ''hi'')) =
             Inl (Error (js ''Gemini error 404''))"
    using s by (simp_all add: network_def ok_def)
  from provider_client_contract
    [of "network (Settles_after 0 (Response ?r2))" "js ''k''" "js ''hi''" 0 ?r2 ?d2
      "js '' hi there ''"] p2 n t
  have 2: "fst (callOpenAI (network (Settles_after 0 (Response ?r2))) (js ''k'') (js ''hi'')) =
             Inr (js ''hi there'')"
    by (simp add: network_def ok_def)
  from provider_client_contract
    [of "network (Settles_after 0 (Response ?r3))" "js ''k''" "js ''hi''" 0 ?r3 ?d3
      "js '' hi there ''"] p3 n t
  have 3: "fst (callGemini (network (Settles_after 0 (Response ?r3))) (js ''k'') (js ''hi'')) =
             Inr (js ''hi there'')"
    by (simp add: network_def ok_def)
  from provider_client_contract
    [of "network (Settles_after 0 (Response ?r4))" "js ''k''" "js ''hi''" 0 ?r4 "JObj []"] p4 n
  have 4: "fst (callOpenAI (network (Settles_after 0 (Response ?r4))) (js ''k'') (js ''hi'')) = Inr []"
    "fst (callGemini (network (Settles_after 0 (Response ?r4))) (js ''k'') (js ''hi'')) = Inr []"
    by (simp_all add: network_def ok_def)
  from 1 2 3 4 show ?thesis by simp
qed

section \<open>Length presets\<close>

lemma LENGTH_PRESETS_own:
  "LENGTH_PRESETS (js ''short'') = Own 300"
  "LENGTH_PRESETS (js ''medium'') = Own 700"
  "LENGTH_PRESETS (js ''long'') = Own 1200"
  by (simp_all add: LENGTH_PRESETS_def js_def)

lemma show_nat_presets:
  "show_nat 300 = js ''300''" "show_nat 700 = js ''700''" "show_nat 1200 = js ''1200''"
  by (simp_all add: show_nat.simps js_def)

lemma generate_prompt_fallback:
  assumes "len \<noteq> js ''short''" and "len \<noteq> js ''medium''" and "len \<noteq> js ''long''"
    and "len \<notin> set Object_prototype"
  shows "generate_prompt env t len = generate_prompt env t (js ''medium'')"
  using assms by (simp add: generate_prompt_def LENGTH_PRESETS_def)

lemma generate_prompt_inherited:
  assumes "len \<in> set Object_prototype"
  shows "generate_prompt env t len =
           js ''Write an informative, SEO-friendly article about '' @ [0x0022] @ t @ [0x0022]
           @ js '' in about '' @ inherited_text env len
           @ js '' words. Use clear headings and short paragraphs. End with a brief conclusion.''"
proof -
  have "len \<noteq> js ''short''" "len \<noteq> js ''medium''" "len \<noteq> js ''long''"
    using assms by (auto simp: Object_prototype_def js_def)
  with assms show ?thesis
    by (simp add: generate_prompt_def LENGTH_PRESETS_def text_of_def)
qed

lemma generate_result_fetches:
  "fetches (case r of (Inr text, tr') \<Rightarrow> tr' @ [Set_article text]
                    | (Inl e, tr') \<Rightarrow> tr' @ [Console_error e, Toast_error (f e)]) =
     fetches (snd r)"
  by (auto simp: fetches_append split: prod.splits sum.splits)

lemma onGenerate_fetches:
  assumes "trim (collapse_spaces (topic st)) \<noteq> []"
    and "length (trim (collapse_spaces (topic st))) \<le> 120"
    and "providerKey st = Some k" and "k \<noteq> []"
  shows "fetches (onGenerate env st) =
           [if provider st = OpenAI
            then openai_request k
                   (generate_prompt env (trim (collapse_spaces (topic st))) (length_preset st))
            else gemini_request k
                   (generate_prompt env (trim (collapse_spaces (topic st))) (length_preset st))]"
  using assms
  by (simp add: onGenerate_def ensureKey_def Let_def fetches_append generate_result_fetches
      call_provider_fetches asserted_key_def)

text \<open>
  C10. A length that is none of the three presets falls back to the 700 words of
  \<open>medium\<close> only if \<open>Object.prototype\<close> has no member of that name (lemma
  \<open>generate_prompt_fallback\<close>). For the length \<open>constructor\<close> the table read finds the
  inherited constructor, \<open>??\<close> keeps it, and the prompt sent to the provider asks for
  "about function Object() { [native code] } words".
\<close>

theorem length_preset_inherited_member:
  "LENGTH_PRESETS (js ''constructor'') = Inherited (js ''constructor'') \<and>
   fetches (onGenerate (network Never_settles)
              (initial_state\<lparr>providerKey := Some (js ''k''), topic := js ''cats'',
                             length_preset := js ''constructor''\<rparr>)) =
     [openai_request (js ''k'')
        (js ''Write an informative, SEO-friendly article about '' @ [0x0022] @ js ''cats'' @ [0x0022]
         @ js '' in about function Object() { [native code] } words. Use clear headings and short paragraphs. End with a brief conclusion.'')]"
proof -
  let ?st = "initial_state\<lparr>providerKey := Some (js ''k''), topic := js ''cats'',
                             length_preset := js ''constructor''\<rparr>"
  have m: "js ''constructor'' \<in> set Object_prototype"
    by (simp add: Object_prototype_def)
  have 1: "LENGTH_PRESETS (js ''constructor'') = Inherited (js ''constructor'')"
    by (simp add: LENGTH_PRESETS_def Object_prototype_def js_def)
  have c: "trim (collapse_spaces (topic ?st)) = js ''cats''"
    by (simp add: js_def is_space_def trim_def)
  have k: "js ''k'' \<noteq> []" "js ''cats'' \<noteq> []" "length (js ''cats'') \<le> 120"
    by (simp_all add: js_def)
  have p: "generate_prompt (network Never_settles) (js ''cats'') (js ''constructor'') =
     js ''Write an informative, SEO-friendly article about '' @ [0x0022] @ js ''cats'' @ [0x0022]
         @ js '' in about function Object() { [native code] } words. Use clear headings and short paragraphs. End with a brief conclusion.''"
    by (simp add: generate_prompt_inherited [OF m] network_def example_inherited_text_def)
      (simp add: js_def)
  have "fetches (onGenerate (network Never_settles) ?st) =
          [openai_request (js ''k'')
             (generate_prompt (network Never_settles) (js ''cats'') (js ''constructor''))]"
    using onGenerate_fetches [of ?st "js ''k''" "network Never_settles"] c k
    by (simp add: initial_state_def)
  with 1 p show ?thesis by simp
qed

section \<open>The page and the key store\<close>

lemma getStoredProvider_after_save:
  "getStoredProvider (fst (onSave p m ka kb b)) = p"
  by (cases p)
    (simp_all add: getStoredProvider_def onSave_persists_provider provider_id_def or_default_def
      mode_strings)

lemma getApiKey_after_save:
  "getApiKey q (fst (onSave p m ka kb b)) =
     (let k = (if q = OpenAI then ka else kb) in if k = [] then None else Some k)"
proof -
  have "target_store (persisted_mode (fst (onSave p m ka kb b))) = target_store m"
    by (simp add: persisted_mode_def onSave_persists_mode or_default_def target_store_def
        mode_strings)
  then show ?thesis
    by (simp add: getApiKey_reads_persisted_store onSave_target_store)
qed

lemma mount_reads_stores:
  "provider (mount b) = getStoredProvider b"
  "providerKey (mount b) = getApiKey (getStoredProvider b) b"
  by (cases "getStoredProvider b"; simp add: mount_def first_render_def Let_def)+

lemma mount_in_step: "in_step (mount b) b"
  by (simp add: in_step_def mount_reads_stores)

lemma edit_in_step:
  "in_step st b \<Longrightarrow>
   in_step (st\<lparr>topic := t, length_preset := l, sourceText := x, sourceUrl := u\<rparr>) b"
  by (simp add: in_step_def)

lemma empty_stores_no_key:
  "getStoredProvider empty_stores = OpenAI" "getApiKey q empty_stores = None"
  by (simp_all add: getStoredProvider_def getApiKey_def getItem_def storage_of_def
      empty_stores_def or_default_def mode_strings)

lemma mount_empty_stores: "mount empty_stores = initial_state"
  by (simp add: mount_def first_render_def initial_state_def empty_stores_no_key)

lemma stores_with_key:
  "getStoredProvider stores_with_key = OpenAI"
  "getApiKey OpenAI stores_with_key = Some (js ''k'')"
  by (simp_all add: stores_with_key_def getStoredProvider_after_save getApiKey_after_save js_def)

lemma stores_cleared:
  "getStoredProvider stores_cleared = OpenAI" "getApiKey OpenAI stores_cleared = None"
  by (simp_all add: stores_cleared_def getStoredProvider_after_save getApiKey_after_save)

lemma mount_stores_with_key:
  "mount stores_with_key = initial_state\<lparr>providerKey := Some (js ''k'')\<rparr>"
  by (simp add: mount_def first_render_def initial_state_def stores_with_key)

lemma onSummarize_with_text:
  assumes "providerKey st = Some k" and "k \<noteq> []" and "trim (sourceText st) \<noteq> []"
  shows "onSummarize env st = summarize_text env st (trim (sourceText st))"
  using assms by (simp add: onSummarize_def ensureKey_def)

text \<open>
  C5, as stated, fails twice. On the freshly mounted page over stores that hold no key,
  \<open>onGenerate\<close> reports the empty topic, not the missing key, because the topic is checked
  first. And a page mounted while the key \<open>"k"\<close> was stored keeps that key: after the key
  has been removed from the stores, \<open>onGenerate\<close> still puts a request with it on the
  network.
\<close>

theorem missing_key_counterexample:
  "getApiKey (getStoredProvider empty_stores) empty_stores = None \<and>
   onGenerate (network Never_settles) (mount empty_stores) =
     [Toast_error (js ''Please enter a topic or keyword.'')] \<and>
   onGenerate (network Never_settles) (mount empty_stores) \<noteq>
     [Toast_error (js ''Add your API key in Settings (top right).'')] \<and>
   getApiKey (getStoredProvider stores_cleared) stores_cleared = None \<and>
   fetches (onGenerate (network Never_settles) ((mount stores_with_key)\<lparr>topic := js ''cats''\<rparr>)) =
     [openai_request (js ''k'')
        (generate_prompt (network Never_settles) (js ''cats'') (js ''medium''))]"
proof -
  let ?st = "(mount stores_with_key)\<lparr>topic := js ''cats''\<rparr>"
  have 1: "onGenerate (network Never_settles) (mount empty_stores) =
     [Toast_error (js ''Please enter a topic or keyword.'')]"
    by (simp add: mount_empty_stores initial_state_def onGenerate_def trim_def)
  have 2: "js ''Please enter a topic or keyword.'' \<noteq> js ''Add your API key in Settings (top right).''"
    by (simp add: js_def)
  have c: "trim (collapse_spaces (topic ?st)) = js ''cats''"
    by (simp add: js_def is_space_def trim_def)
  have k: "js ''k'' \<noteq> []" "js ''cats'' \<noteq> []" "length (js ''cats'') \<le> 120"
    by (simp_all add: js_def)
  have 3: "fetches (onGenerate (network Never_settles) ?st) =
     [openai_request (js ''k'')
        (generate_prompt (network Never_settles) (js ''cats'') (js ''medium''))]"
    using onGenerate_fetches [of ?st "js ''k''" "network Never_settles"] c k
    by (simp add: mount_stores_with_key initial_state_def)
  from 1 2 3 show ?thesis
    by (simp add: empty_stores_no_key stores_cleared)
qed

text \<open>
  C5, amended. When the stores hold no key for the stored provider (nothing, or the empty
  string) and the page is in step with the stores, as it is from its mounting until the
  next save: \<open>onSummarize\<close> does nothing but show the error "Add your API key in Settings
  (top right)."; \<open>onGenerate\<close> does the same when the topic passes validation; and neither
  handler puts a request on the network, whatever the topic.
\<close>

theorem missing_key_reported:
  assumes "in_step st b"
    and "getApiKey (getStoredProvider b) b = None \<or> getApiKey (getStoredProvider b) b = Some []"
  shows "onSummarize env st = [Toast_error (js ''Add your API key in Settings (top right).'')] \<and>
         (trim (collapse_spaces (topic st)) \<noteq> [] \<and> length (trim (collapse_spaces (topic st))) \<le> 120 \<longrightarrow>
            onGenerate env st = [Toast_error (js ''Add your API key in Settings (top right).'')]) \<and>
         fetches (onGenerate env st) = [] \<and>
         fetches (onSummarize env st) = []"
proof -
  from assms have "providerKey st = None \<or> providerKey st = Some []"
    by (simp add: in_step_def)
  then show ?thesis
    by (auto simp: onSummarize_def onGenerate_def ensureKey_def Let_def)
qed

theorem missing_key_reported_witness:
  "in_step ((mount empty_stores)\<lparr>topic := js ''cats''\<rparr>) empty_stores \<and>
   getApiKey (getStoredProvider empty_stores) empty_stores = None \<and>
   onSummarize (network Never_settles) ((mount empty_stores)\<lparr>topic := js ''cats''\<rparr>) =
     [Toast_error (js ''Add your API key in Settings (top right).'')] \<and>
   onGenerate (network Never_settles) ((mount empty_stores)\<lparr>topic := js ''cats''\<rparr>) =
     [Toast_error (js ''Add your API key in Settings (top right).'')] \<and>
   fetches (onGenerate (network Never_settles) ((mount empty_stores)\<lparr>topic := js ''cats''\<rparr>)) = [] \<and>
   fetches (onSummarize (network Never_settles) ((mount empty_stores)\<lparr>topic := js ''cats''\<rparr>)) = []"
proof -
  let ?st = "(mount empty_stores)\<lparr>topic := js ''cats''\<rparr>"
  have 0: "in_step ?st empty_stores"
    using mount_in_step [of empty_stores] by (simp add: in_step_def)
  have 1: "getApiKey (getStoredProvider empty_stores) empty_stores = None \<or>
           getApiKey (getStoredProvider empty_stores) empty_stores = Some []"
    by (simp add: empty_stores_no_key)
  have 2: "trim (collapse_spaces (topic ?st)) = js ''cats''"
    by (simp add: js_def is_space_def trim_def)
  have 3: "js ''cats'' \<noteq> [] \<and> length (js ''cats'') \<le> 120"
    by (simp add: js_def)
  from missing_key_reported [OF 0 1, of "network Never_settles"] 0 2 3 show ?thesis
    by (simp add: empty_stores_no_key)
qed

text \<open>
  C6, as stated, fails. Over stores that hold no key, a text of 15000 characters is
  neither truncated nor warned about: the handler stops at the missing key. The same
  page stops there even once the key \<open>"k"\<close> is in the stores, because it keeps the key
  it read when it was mounted. And a page that holds a key rejects the empty text (of at
  most 12000 characters) instead of passing it on.
\<close>

theorem summarize_truncation_counterexample:
  "12000 < length (trim (sourceText ((mount empty_stores)\<lparr>sourceText := replicate 15000 0x0061\<rparr>))) \<and>
   getApiKey (getStoredProvider empty_stores) empty_stores = None \<and>
   getApiKey (getStoredProvider stores_with_key) stores_with_key = Some (js ''k'') \<and>
   onSummarize (network Never_settles) ((mount empty_stores)\<lparr>sourceText := replicate 15000 0x0061\<rparr>) =
     [Toast_error (js ''Add your API key in Settings (top right).'')] \<and>
   length (trim (sourceText (mount stores_with_key))) \<le> 12000 \<and>
   onSummarize (network Never_settles) (mount stores_with_key) =
     [Toast_error (js ''Paste text or provide a URL.'')]"
proof -
  have 1: "trim (replicate 15000 0x0061) = replicate 15000 0x0061"
    by (simp add: trim_no_space not_space_a)
  have 2: "onSummarize (network Never_settles)
             ((mount empty_stores)\<lparr>sourceText := replicate 15000 0x0061\<rparr>) =
     [Toast_error (js ''Add your API key in Settings (top right).'')]"
    by (simp add: onSummarize_def ensureKey_def mount_empty_stores initial_state_def)
  have 3: "onSummarize (network Never_settles) (mount stores_with_key) =
     [Toast_error (js ''Paste text or provide a URL.'')]"
    by (simp add: onSummarize_def ensureKey_def mount_stores_with_key initial_state_def
        summarize_text_def trim_def js_def)
  have 4: "trim (sourceText (mount stores_with_key)) = []"
    by (simp add: mount_stores_with_key initial_state_def trim_def)
  from 1 2 3 4 show ?thesis
    by (simp add: empty_stores_no_key stores_with_key)
qed

text \<open>
  C6, amended. When the stores hold a key for the stored provider and the page is in step
  with the stores: for a source text whose trimmed form is longer than 12000 code units,
  \<open>onSummarize\<close> shows the truncation warning (once) and puts one request on the network,
  to the stored provider with the stored key, built from the prompt over exactly the
  first 12000 code units of the trimmed text; for a non-empty trimmed text of at most
  12000 code units the one request carries the prompt over the whole trimmed text and no
  warning is shown.
\<close>

theorem summarize_truncates:
  assumes "in_step st b" and "getApiKey (getStoredProvider b) b = Some k" and "k \<noteq> []"
  shows "(12000 < length (trim (sourceText st)) \<longrightarrow>
            fetches (onSummarize env st) =
              [if getStoredProvider b = OpenAI
               then openai_request k (summarize_prompt (take 12000 (trim (sourceText st))))
               else gemini_request k (summarize_prompt (take 12000 (trim (sourceText st))))] \<and>
            warnings (onSummarize env st) =
              [js ''Input truncated to prevent oversized requests.'']) \<and>
         (trim (sourceText st) \<noteq> [] \<and> length (trim (sourceText st)) \<le> 12000 \<longrightarrow>
            fetches (onSummarize env st) =
              [if getStoredProvider b = OpenAI
               then openai_request k (summarize_prompt (trim (sourceText st)))
               else gemini_request k (summarize_prompt (trim (sourceText st)))] \<and>
            warnings (onSummarize env st) = [])"
proof -
  from assms have held: "providerKey st = Some k" and prov: "provider st = getStoredProvider b"
    by (simp_all add: in_step_def)
  have key: "asserted_key st = k"
    using held by (simp add: asserted_key_def)
  have long: "12000 < length (trim (sourceText st)) \<Longrightarrow> trim (sourceText st) \<noteq> []"
    by auto
  show ?thesis
    using held assms(3) long prov
    by (auto simp: onSummarize_with_text summarize_text_fetches summarize_text_warnings key
        MAX_TEXT_def)
qed

theorem summarize_truncates_witness:
  "in_step ((mount stores_with_key)\<lparr>sourceText := replicate 12001 0x0061\<rparr>) stores_with_key \<and>
   getApiKey (getStoredProvider stores_with_key) stores_with_key = Some (js ''k'') \<and>
   fetches (onSummarize (network Never_settles)
      ((mount stores_with_key)\<lparr>sourceText := replicate 12001 0x0061\<rparr>)) =
     [openai_request (js ''k'') (summarize_prompt (replicate 12000 0x0061))] \<and>
   warnings (onSummarize (network Never_settles)
      ((mount stores_with_key)\<lparr>sourceText := replicate 12001 0x0061\<rparr>)) =
     [js ''Input truncated to prevent oversized requests.''] \<and>
   fetches (onSummarize (network Never_settles)
      ((mount stores_with_key)\<lparr>sourceText := replicate 12000 0x0061\<rparr>)) =
     [openai_request (js ''k'') (summarize_prompt (replicate 12000 0x0061))] \<and>
   warnings (onSummarize (network Never_settles)
      ((mount stores_with_key)\<lparr>sourceText := replicate 12000 0x0061\<rparr>)) = []"
proof -
  let ?long = "(mount stores_with_key)\<lparr>sourceText := replicate 12001 0x0061\<rparr>"
  let ?full = "(mount stores_with_key)\<lparr>sourceText := replicate 12000 0x0061\<rparr>"
  have k: "js ''k'' \<noteq> []"
    by (simp add: js_def)
  have s: "in_step ?long stores_with_key" "in_step ?full stores_with_key"
    using mount_in_step [of stores_with_key] by (simp_all add: in_step_def)
  have g: "getApiKey (getStoredProvider stores_with_key) stores_with_key = Some (js ''k'')"
    by (simp add: stores_with_key)
  have 2: "trim (sourceText ?long) = replicate 12001 0x0061"
    "trim (sourceText ?full) = replicate 12000 0x0061"
    by (simp_all add: trim_no_space not_space_a)
  from summarize_truncates [OF s(1) g k, of "network Never_settles"]
    summarize_truncates [OF s(2) g k, of "network Never_settles"] s g
  show ?thesis
    unfolding 2 by (simp add: stores_with_key)
qed

section \<open>Content Fetcher\<close>

lemma content_fetcher_never_rejects:
  "fst (tryFetchUrlContent env s) \<noteq> Rejected e"
  by (cases "tryFetchUrlContent_try env s"; cases "fst (tryFetchUrlContent_try env s)")
    (simp_all add: tryFetchUrlContent_def)

lemma content_fetcher_scheme_check:
  assumes "\<forall>u. new_URL env s = Some u \<longrightarrow> protocol u \<noteq> js ''http:'' \<and> protocol u \<noteq> js ''https:''"
  shows "tryFetchUrlContent env s = (Fulfilled None, [])"
  using assms
  by (cases "new_URL env s") (simp_all add: tryFetchUrlContent_def tryFetchUrlContent_try_def)

lemma content_fetcher_outcome:
  assumes "new_URL env s = Some u" and "protocol u = js ''http:'' \<or> protocol u = js ''https:''"
  shows "fst (tryFetchUrlContent env s) =
           (case fetch env (fetch_request u) of
              Never_settles \<Rightarrow> Fulfilled None
            | Settles_after t r \<Rightarrow>
                if 8000 \<le> t then Fulfilled None
                else (case r of
                        Network_error \<Rightarrow> Fulfilled None
                      | Response res \<Rightarrow>
                          if \<not> ok res then Fulfilled None
                          else (case text_body res of
                                  Body html \<Rightarrow> Fulfilled (Some (extract_text html))
                                | Body_rejects e \<Rightarrow> Fulfilled None
                                | Body_stalls \<Rightarrow> Pending)))"
  using assms
  by (auto simp: tryFetchUrlContent_def tryFetchUrlContent_try_def await_fetch_def
      split: fetch_behaviour.splits fetch_result.splits body_read.splits)

lemma extract_text_example:
  "extract_text (js ''<p>Hello   <b>world</b></p><SCRIPT>x > 1</script>'') = js ''Hello world''"
  by code_simp

lemma content_fetcher_ftp:
  "tryFetchUrlContent (network (Settles_after 0 Network_error)) (js ''ftp://example.com'') =
     (Fulfilled None, [])"
  by (rule content_fetcher_scheme_check) (simp add: network_def example_new_URL_def js_def)

text \<open>
  C7. \<open>tryFetchUrlContent\<close> never rejects (\<open>content_fetcher_never_rejects\<close>), and an input
  that does not parse as a URL, or parses with a protocol other than \<open>http:\<close> and
  \<open>https:\<close>, resolves to \<open>null\<close> with no timer and no request
  (\<open>content_fetcher_scheme_check\<close>). But the call is not total. The 8000 ms timer is
  cleared before the body is read, so when a response with status 200 arrives and its
  body then stalls, nothing aborts the read and the promise stays pending: the call
  returns neither text nor \<open>null\<close>. (In the provider clients the timer is still armed
  during the read, and the same response ends in an \<open>AbortError\<close>:
  \<open>provider_client_stalled_body\<close>.)
\<close>

theorem content_fetcher_stays_pending:
  "tryFetchUrlContent
     (network (Settles_after 0 (Response
        \<lparr>status = 200, json_body = Body_stalls, text_body = Body_stalls\<rparr>)))
     (js ''https://example.com'') =
     (Pending,
      [Set_timeout 8000,
       Fetch (fetch_request \<lparr>protocol = js ''https:'', href = js ''https://example.com/''\<rparr>),
       Clear_timeout])"
  by (simp add: tryFetchUrlContent_def tryFetchUrlContent_try_def await_fetch_def network_def
      example_new_URL_def ok_def)

end
